theory Spec2Isabelle
  imports Main "HOL-Library.Signed_Division"
begin

section \<open>The webhooktunnel client (whclient/client.go)\<close>

subsection \<open>Data model\<close>

text \<open>
  Go's \<open>time.Duration\<close> and points in time are integers (nanoseconds). A websocket
  connection and a multiplexed stream are opaque handles. A wsmux session is the
  connection it was built on together with the \<open>StreamBufferSize\<close> of its
  \<open>wsmux.Config\<close> (0 for the empty configuration).
\<close>

type_synonym duration = int
type_synonym time = int
type_synonym conn = nat
type_synonym stream = nat

datatype session = Session conn nat

datatype clientState = stateRunning | stateBroken | stateClosed

text \<open>
  Modelled from the spec: the error values \<open>ErrClientClosed\<close>,
  \<open>ErrClientReconnecting\<close>, \<open>ErrAuthFailed\<close>, \<open>ErrRetryFailed\<close> and
  \<open>ErrRetryTimedOut\<close> are declared in a file of the package that is not at hand;
  the error taxonomy of the specification lists them as five different errors.
\<close>

datatype error =
    ErrClientClosed
  | ErrClientReconnecting
  | ErrAuthFailed
  | ErrRetryFailed
  | ErrRetryTimedOut

text \<open>
  \<open>http.Response\<close>: the status code (a Go \<open>int\<close>) and the header bag, a map from
  header name to the list of its values. \<open>Header.Get\<close> yields the first value of
  the name, and the empty string when there is none. Go brings header names into a
  canonical spelling on both sides; here a name is spelt as the client writes it.
\<close>

record Response =
  StatusCode :: int
  Header :: "string \<rightharpoonup> string list"

definition Header_Get :: "(string \<rightharpoonup> string list) \<Rightarrow> string \<Rightarrow> string" where
  "Header_Get h k = (case h k of None \<Rightarrow> [] | Some [] \<Rightarrow> [] | Some (v # _) \<Rightarrow> v)"

text \<open>
  \<open>RetryConfig\<close> is declared outside the files at hand; the client reads its
  fields \<open>InitialDelay\<close> and \<open>MaxElapsedTime\<close>. Its methods \<open>defaultValues\<close> and
  \<open>nextDelay\<close>, and the helpers \<open>util.IsTokenUsable\<close> and \<open>util.MakeWsURL\<close>, are
  parameters of the model, collected in the record \<open>Extern\<close>.
\<close>

record RetryConfig =
  InitialDelay :: duration
  MaxElapsedTime :: duration

record Extern =
  IsTokenUsable :: "string \<Rightarrow> bool"
  MakeWsURL :: "string \<Rightarrow> string"
  defaultValues :: "RetryConfig \<Rightarrow> RetryConfig"
  nextDelay :: "RetryConfig \<Rightarrow> duration \<Rightarrow> duration"

text \<open>\<open>Config\<close>; the logger has no influence on the client's behaviour and is left out.\<close>

record Config =
  ID :: string
  ProxyAddr :: string
  Token :: string
  Retry :: RetryConfig

text \<open>
  \<open>Client\<close>. The mutex \<open>m\<close> is modelled by the atomicity of the sections it guards.
  \<open>url\<close> is an \<open>atomic.Value\<close>: empty (\<open>None\<close>) until the first \<open>Store\<close>.
  \<open>closed\<close> is the channel that \<open>Close\<close> closes: \<open>True\<close> once it is closed.
  The configurer is an argument of the operations that call it.
\<close>

record Client =
  id :: string
  proxyAddr :: string
  token :: string
  url :: "string option"
  retry :: RetryConfig
  session :: "session option"
  state :: clientState
  closed :: bool
  acceptErr :: "error option"

subsection \<open>The dial classifier\<close>

text \<open>
  \<open>shouldRetry\<close> and \<open>isAuthError\<close>: the argument is the \<open>*http.Response\<close> of the
  handshake, \<open>None\<close> for \<open>nil\<close>. Go's integer division truncates towards zero
  (\<open>sdiv\<close>).
\<close>

fun shouldRetry :: "Response option \<Rightarrow> bool" where
  "shouldRetry None = True"
| "shouldRetry (Some r) =
     (if StatusCode r sdiv 100 = 4 \<or> StatusCode r sdiv 100 = 2 then False else True)"

fun isAuthError :: "Response option \<Rightarrow> bool" where
  "isAuthError None = False"
| "isAuthError (Some r) = (StatusCode r = 401)"

subsection \<open>The environment of a connection attempt\<close>

text \<open>
  \<open>websocket.DefaultDialer.Dial\<close> either succeeds with a connection and the
  handshake response, or fails with an error and a response that may be \<open>nil\<close>.
  A \<open>Dialer\<close> describes what the network does during one call of
  \<open>connectWithRetry\<close>: the outcome of the \<open>k\<close>-th dial (\<open>0\<close> is the immediate
  attempt, \<open>1, 2, ...\<close> the attempts of the retry loop), how long that dial took,
  and which case \<open>select\<close> picks at the \<open>k\<close>-th attempt when both timers are ready
  (\<open>True\<close>: the budget timer).
\<close>

datatype dial_outcome = DialOk conn Response | DialFail "Response option"

record Dialer =
  outcome :: "nat \<Rightarrow> dial_outcome"
  took :: "nat \<Rightarrow> nat"
  tie :: "nat \<Rightarrow> bool"

text \<open>
  What an operation does to the world outside the client record: a dial (with the
  time, the address and the request header), \<open>Close\<close> of a session, a \<open>go\<close>
  statement, a nil dereference.
\<close>

datatype task = ReconnectTask | CleanupTask | AcceptTask

datatype effect =
    Dial time string "(string \<times> string) list"
  | CloseSession session
  | Go task
  | NilDeref

text \<open>The instants of the dials among the effects.\<close>

fun dialTimes :: "effect list \<Rightarrow> time list" where
  "dialTimes [] = []"
| "dialTimes (Dial t a h # es) = t # dialTimes es"
| "dialTimes (e # es) = dialTimes es"

text \<open>Whether an effect is a dial.\<close>

fun isDial :: "effect \<Rightarrow> bool" where
  "isDial (Dial t a h) = True"
| "isDial e = False"

subsection \<open>The connector\<close>

definition setConfig :: "Extern \<Rightarrow> Client \<Rightarrow> Config \<Rightarrow> Client" where
  "setConfig X c config =
     c\<lparr>id := ID config,
       proxyAddr := MakeWsURL X (ProxyAddr config),
       token := Token config,
       retry := defaultValues X (Retry config)\<rparr>"

definition dialHeader :: "Client \<Rightarrow> (string \<times> string) list" where
  "dialHeader c =
     [(''Authorization'', ''Bearer '' @ token c), (''x-webhooktunnel-id'', id c)]"

text \<open>
  The loop of \<open>retryConn\<close>. \<open>maxTimer\<close> and \<open>backoff\<close> are the instants at which
  the two \<open>time.After\<close> channels become ready, \<open>now\<close> is the instant at which
  \<open>select\<close> is entered. A timer whose instant has passed is ready at \<open>now\<close>;
  \<open>select\<close> takes the case that is ready first, and \<open>tie\<close> decides when both are
  ready at the same instant. The loop need not return: \<open>None\<close> is a loop that
  runs forever.
\<close>

partial_function (option) retryLoop ::
  "Extern \<Rightarrow> Client \<Rightarrow> Dialer \<Rightarrow> time \<Rightarrow> nat \<Rightarrow> time \<Rightarrow> duration \<Rightarrow> time \<Rightarrow> effect list
     \<Rightarrow> ((error + conn \<times> string) \<times> effect list) option" where
  "retryLoop X c D maxTimer k now currentDelay backoff log =
     (if max now maxTimer < max now backoff \<or>
         (max now maxTimer = max now backoff \<and> tie D k)
      then Some (Inl ErrRetryTimedOut, log)
      else
        (case outcome D k of
           DialOk cn res \<Rightarrow>
             Some (Inr (cn, Header_Get (Header res) ''x-webhooktunnel-client-url''),
                   log @ [Dial (max now backoff) (proxyAddr c) (dialHeader c)])
         | DialFail res \<Rightarrow>
             if \<not> shouldRetry res
             then Some (Inl ErrRetryFailed,
                        log @ [Dial (max now backoff) (proxyAddr c) (dialHeader c)])
             else retryLoop X c D maxTimer (Suc k)
                    (max now backoff + int (took D k))
                    (nextDelay X (retry c) currentDelay)
                    (max now backoff + int (took D k) + nextDelay X (retry c) currentDelay)
                    (log @ [Dial (max now backoff) (proxyAddr c) (dialHeader c)])))"

declare retryLoop.simps [code]

text \<open>\<open>retryConn\<close> entered at the instant \<open>T\<close>, after the effects \<open>log\<close>.\<close>

definition retryConn ::
  "Extern \<Rightarrow> Client \<Rightarrow> Dialer \<Rightarrow> time \<Rightarrow> effect list
     \<Rightarrow> ((error + conn \<times> string) \<times> effect list) option" where
  "retryConn X c D T log =
     retryLoop X c D (T + MaxElapsedTime (retry c)) 1 T
       (InitialDelay (retry c)) (T + InitialDelay (retry c)) log"

text \<open>
  \<open>connectWithRetry\<close>, called at the instant \<open>now\<close>. \<open>cfgr\<close> is what
  \<open>c.configurer()\<close> returns if this call invokes it (\<open>None\<close>: an error). The
  result is the error or the connection with the public URL, the client (whose
  configuration may have been replaced) and the effects. \<open>connectDial\<close> is the part
  of the function after the credential check.
\<close>

definition connectDial ::
  "Extern \<Rightarrow> Client \<Rightarrow> Dialer \<Rightarrow> time
     \<Rightarrow> ((error + conn \<times> string) \<times> Client \<times> effect list) option" where
  "connectDial X c D now =
     (case outcome D 0 of
        DialFail res \<Rightarrow>
          if shouldRetry res
          then map_option (\<lambda>(r, log). (r, c, log))
                 (retryConn X c D (now + int (took D 0))
                    [Dial now (proxyAddr c) (dialHeader c)])
          else if isAuthError res
          then Some (Inl ErrAuthFailed, c, [Dial now (proxyAddr c) (dialHeader c)])
          else Some (Inl ErrRetryFailed, c, [Dial now (proxyAddr c) (dialHeader c)])
      | DialOk cn res \<Rightarrow>
          Some (Inr (cn, Header_Get (Header res) ''x-webhooktunnel-client-url''), c,
                [Dial now (proxyAddr c) (dialHeader c)]))"

definition connectWithRetry ::
  "Extern \<Rightarrow> Client \<Rightarrow> Config option \<Rightarrow> Dialer \<Rightarrow> time
     \<Rightarrow> ((error + conn \<times> string) \<times> Client \<times> effect list) option" where
  "connectWithRetry X c cfgr D now =
     (if \<not> IsTokenUsable X (token c)
      then (case cfgr of
              None \<Rightarrow> Some (Inl ErrRetryFailed, c, [])
            | Some config \<Rightarrow> connectDial X (setConfig X c config) D now)
      else connectDial X c D now)"




subsection \<open>The client's operations\<close>

text \<open>
  \<open>New\<close>. \<open>cfg0\<close> is what the first call of the configurer returns, \<open>cfgr\<close> what a
  second call by \<open>connectWithRetry\<close> returns. The client starts from Go's zero
  values: \<open>stateRunning\<close> is the constant 0, the channel \<open>closed\<close> is open.
\<close>

datatype new_error = ConfigurerFailed | ConnectFailed error

definition zeroClient :: Client where
  "zeroClient =
     \<lparr>id = [], proxyAddr = [], token = [], url = None,
      retry = \<lparr>InitialDelay = 0, MaxElapsedTime = 0\<rparr>,
      session = None, state = stateRunning, closed = False, acceptErr = None\<rparr>"

definition New ::
  "Extern \<Rightarrow> Config option \<Rightarrow> Config option \<Rightarrow> Dialer \<Rightarrow> time
     \<Rightarrow> ((new_error + Client) \<times> effect list) option" where
  "New X cfg0 cfgr D now =
     (case cfg0 of
        None \<Rightarrow> Some (Inl ConfigurerFailed, [])
      | Some config \<Rightarrow>
          (case connectWithRetry X (setConfig X zeroClient config) cfgr D now of
             None \<Rightarrow> None
           | Some (Inl err, c, log) \<Rightarrow> Some (Inl (ConnectFailed err), log)
           | Some (Inr (cn, u), c, log) \<Rightarrow>
               Some (Inr (c\<lparr>url := Some u, session := Some (Session cn 0)\<rparr>), log)))"

text \<open>\<open>URL\<close>: the type assertion on an empty \<open>atomic.Value\<close> panics (\<open>None\<close>).\<close>

definition URL :: "Client \<Rightarrow> string option" where
  "URL c = url c"

text \<open>
  \<open>Accept\<close>. \<open>acc s\<close> is what \<open>Accept\<close> of the session \<open>s\<close> yields for this call: a
  stream, or \<open>None\<close> for an error. \<open>acceptLocked\<close> is the part of the function that
  runs under the mutex, after the check of the channel \<open>closed\<close>. The result is
  what the caller gets, the client and the effects; \<open>AcceptErr e\<close> is the return
  \<open>(nil, e)\<close>, and \<open>AcceptPanic\<close> the method call on a \<open>nil\<close> session.
\<close>

datatype accept_ret = AcceptStream stream | AcceptErr "error option" | AcceptPanic

definition acceptLocked ::
  "Client \<Rightarrow> (session \<Rightarrow> stream option) \<Rightarrow> accept_ret \<times> Client \<times> effect list" where
  "acceptLocked c acc =
     (if state c = stateBroken \<or> state c = stateClosed
      then (AcceptErr (acceptErr c), c, [])
      else
        (case session c of
           None \<Rightarrow> (AcceptPanic, c, [NilDeref])
         | Some s \<Rightarrow>
             (case acc s of
                None \<Rightarrow>
                  (AcceptErr (Some ErrClientReconnecting),
                   c\<lparr>state := stateBroken, acceptErr := Some ErrClientReconnecting\<rparr>,
                   [Go ReconnectTask])
              | Some st \<Rightarrow> (AcceptStream st, c, []))))"

definition Accept ::
  "Client \<Rightarrow> (session \<Rightarrow> stream option) \<Rightarrow> accept_ret \<times> Client \<times> effect list" where
  "Accept c acc =
     (if closed c then (AcceptErr (Some ErrClientClosed), c, []) else acceptLocked c acc)"

text \<open>
  \<open>Close\<close> returns the error \<open>nil\<close> (\<open>None\<close>); \<open>closeCleanup\<close> is the body of the
  goroutine it starts.
\<close>

definition Close :: "Client \<Rightarrow> error option \<times> Client \<times> effect list" where
  "Close c =
     (if closed c then (None, c, [])
      else (None, c\<lparr>closed := True\<rparr>, [Go CleanupTask]))"

definition closeCleanup :: "Client \<Rightarrow> Client \<times> effect list" where
  "closeCleanup c =
     (c\<lparr>acceptErr := Some ErrClientClosed\<rparr>,
      case session c of None \<Rightarrow> [NilDeref] | Some s \<Rightarrow> [CloseSession s])"

text \<open>\<open>reconnect\<close>, run at the instant \<open>now\<close>; \<open>None\<close> when the connector never returns.\<close>

definition reconnect ::
  "Extern \<Rightarrow> Client \<Rightarrow> Config option \<Rightarrow> Dialer \<Rightarrow> time \<Rightarrow> (Client \<times> effect list) option" where
  "reconnect X c cfgr D now =
     (case connectWithRetry X c cfgr D now of
        None \<Rightarrow> None
      | Some (Inl err, c', log) \<Rightarrow> Some (c'\<lparr>acceptErr := Some ErrRetryFailed\<rparr>, log)
      | Some (Inr (cn, u), c', log) \<Rightarrow>
          Some (c'\<lparr>session := Some (Session cn 4096), url := Some u,
                   state := stateRunning, acceptErr := None\<rparr>,
                log @ (case session c' of None \<Rightarrow> [] | Some s \<Rightarrow> [CloseSession s])))"

subsection \<open>Goroutines\<close>

text \<open>
  The client together with the goroutines in flight: a \<open>reconnect\<close> or a cleanup
  started by a \<open>go\<close> statement and not yet run, and calls of \<open>Accept\<close> that have
  passed the check of \<open>closed\<close> and wait for the mutex. An event is one atomic
  section: a call of \<open>Close\<close>, the entry of a call of \<open>Accept\<close>, or the run of a
  goroutine in flight under the mutex. An event that names a goroutine which is not
  in flight, and a \<open>reconnect\<close> that never returns, leave the system as it is.
\<close>

record System =
  client :: Client
  inflight :: "task list"

fun spawned :: "effect list \<Rightarrow> task list" where
  "spawned [] = []"
| "spawned (Go t # es) = t # spawned es"
| "spawned (e # es) = spawned es"

datatype event =
    CallClose
  | EnterAccept
  | RunAccept "session \<Rightarrow> stream option"
  | RunCleanup
  | RunReconnect "Config option" Dialer time

fun step :: "Extern \<Rightarrow> event \<Rightarrow> System \<Rightarrow> System" where
  "step X CallClose s =
     (case Close (client s) of
        (e, c', effs) \<Rightarrow> \<lparr>client = c', inflight = inflight s @ spawned effs\<rparr>)"
| "step X EnterAccept s =
     (if closed (client s) then s
      else \<lparr>client = client s, inflight = inflight s @ [AcceptTask]\<rparr>)"
| "step X (RunAccept acc) s =
     (if AcceptTask \<in> set (inflight s)
      then (case acceptLocked (client s) acc of
              (r, c', effs) \<Rightarrow>
                \<lparr>client = c', inflight = remove1 AcceptTask (inflight s) @ spawned effs\<rparr>)
      else s)"
| "step X RunCleanup s =
     (if CleanupTask \<in> set (inflight s)
      then (case closeCleanup (client s) of
              (c', effs) \<Rightarrow>
                \<lparr>client = c', inflight = remove1 CleanupTask (inflight s) @ spawned effs\<rparr>)
      else s)"
| "step X (RunReconnect cfgr D now) s =
     (if ReconnectTask \<in> set (inflight s)
      then (case reconnect X (client s) cfgr D now of
              None \<Rightarrow> s
            | Some (c', effs) \<Rightarrow>
                \<lparr>client = c', inflight = remove1 ReconnectTask (inflight s) @ spawned effs\<rparr>)
      else s)"

fun run :: "Extern \<Rightarrow> event list \<Rightarrow> System \<Rightarrow> System" where
  "run X [] s = s"
| "run X (e # es) s = run X es (step X e s)"

subsection \<open>Concrete inputs\<close>

text \<open>
  Inputs at which the theorems below are evaluated: an instance of the external
  helpers (a token is usable when it is not empty, the delay doubles), responses
  without and with the public-URL header, a configuration with an initial delay of
  10 and a budget of 50, a dialer whose dials take one time unit, and the client
  that \<open>New\<close> builds from them.
\<close>

definition X0 :: Extern where
  "X0 = \<lparr>IsTokenUsable = (\<lambda>t. t \<noteq> []), MakeWsURL = (\<lambda>a. ''ws://'' @ a),
          defaultValues = (\<lambda>r. r), nextDelay = (\<lambda>r d. 2 * d)\<rparr>"

definition resp :: "int \<Rightarrow> Response" where
  "resp n = \<lparr>StatusCode = n, Header = Map.empty\<rparr>"

definition respUrl :: "int \<Rightarrow> string \<Rightarrow> Response" where
  "respUrl n u = \<lparr>StatusCode = n, Header = [''x-webhooktunnel-client-url'' \<mapsto> [u]]\<rparr>"

definition cfg0 :: Config where
  "cfg0 = \<lparr>ID = ''w1'', ProxyAddr = ''relay'', Token = ''tok'',
           Retry = \<lparr>InitialDelay = 10, MaxElapsedTime = 50\<rparr>\<rparr>"

definition dialer :: "(nat \<Rightarrow> dial_outcome) \<Rightarrow> Dialer" where
  "dialer f = \<lparr>outcome = f, took = (\<lambda>k. 1), tie = (\<lambda>k. True)\<rparr>"

definition client0 :: Client where
  "client0 =
     \<lparr>id = ''w1'', proxyAddr = ''ws://relay'', token = ''tok'', url = Some ''http://a'',
      retry = \<lparr>InitialDelay = 10, MaxElapsedTime = 50\<rparr>,
      session = Some (Session 1 0), state = stateRunning, closed = False,
      acceptErr = None\<rparr>"

definition broken0 :: Client where
  "broken0 = client0\<lparr>state := stateBroken, acceptErr := Some ErrClientReconnecting\<rparr>"

definition system0 :: System where
  "system0 = \<lparr>client = client0, inflight = []\<rparr>"

section \<open>Properties\<close>

subsection \<open>Helper facts on the classifier\<close>

lemma sdiv_100_eq_4: "(s::int) sdiv 100 = 4 \<longleftrightarrow> 400 \<le> s \<and> s \<le> 499"
  by (cases "0 \<le> s") (auto simp add: signed_divide_int_def sgn_if abs_if)

lemma sdiv_100_eq_2: "(s::int) sdiv 100 = 2 \<longleftrightarrow> 200 \<le> s \<and> s \<le> 299"
  by (cases "0 \<le> s") (auto simp add: signed_divide_int_def sgn_if abs_if)

lemma shouldRetry_Some:
  "shouldRetry (Some r) \<longleftrightarrow>
     \<not> (200 \<le> StatusCode r \<and> StatusCode r \<le> 299) \<and>
     \<not> (400 \<le> StatusCode r \<and> StatusCode r \<le> 499)"
  by (simp add: sdiv_100_eq_4 sdiv_100_eq_2)

subsection \<open>Helper facts on the retry loop\<close>

lemma dialTimes_append: "dialTimes (xs @ ys) = dialTimes xs @ dialTimes ys"
  by (induction xs rule: dialTimes.induct) simp_all











text \<open>What a returning connector has done: partial correctness by fixpoint induction.\<close>

lemma retryLoop_partial:
  assumes "retryLoop X c D m k now d b log = Some y"
  shows "(\<exists>new. snd y = log @ new \<and> list_all isDial new) \<and>
     (\<forall>cn u. fst y = Inr (cn, u) \<longrightarrow>
        (\<exists>j res. outcome D j = DialOk cn res \<and>
           u = Header_Get (Header res) ''x-webhooktunnel-client-url''))"
proof (rule retryLoop.raw_induct[where P = "\<lambda>X c D m k now d b log y.
     (\<exists>new. snd y = log @ new \<and> list_all isDial new) \<and>
     (\<forall>cn u. fst y = Inr (cn, u) \<longrightarrow>
        (\<exists>j res. outcome D j = DialOk cn res \<and>
           u = Header_Get (Header res) ''x-webhooktunnel-client-url''))", OF _ assms], goal_cases)
  case (1 f X c D maxTimer k now currentDelay backoff log y)
  show ?case
  proof (cases "max now maxTimer < max now backoff \<or> (max now maxTimer = max now backoff \<and> tie D k)")
    case True
    with 1(2) show ?thesis by auto
  next
    case False
    then have nc: "(max now maxTimer < max now backoff \<or> (max now maxTimer = max now backoff \<and> tie D k)) = False"
      by simp
    show ?thesis
    proof (cases "outcome D k")
      case (DialOk cn res)
      with 1(2) show ?thesis unfolding nc by fastforce
    next
      case (DialFail res)
      show ?thesis
      proof (cases "shouldRetry res")
        case False
        with 1(2) DialFail show ?thesis unfolding nc by auto
      next
        case True
        with 1(2) DialFail have
          "f X c D maxTimer (Suc k) (max now backoff + int (took D k))
             (nextDelay X (retry c) currentDelay)
             (max now backoff + int (took D k) + nextDelay X (retry c) currentDelay)
             (log @ [Dial (max now backoff) (proxyAddr c) (dialHeader c)]) = Some y"
          unfolding nc by simp
        from 1(1)[OF this] show ?thesis by auto
      qed
    qed
  qed
qed

lemma connectDial_partial:
  assumes "connectDial X c D now = Some (r, c', log)"
  shows "c' = c \<and> list_all isDial log \<and>
     (\<forall>cn u. r = Inr (cn, u) \<longrightarrow>
        (\<exists>j res. outcome D j = DialOk cn res \<and>
           u = Header_Get (Header res) ''x-webhooktunnel-client-url''))"
proof (cases "outcome D 0")
  case (DialOk cn res)
  with assms show ?thesis by (fastforce simp: connectDial_def)
next
  case (DialFail res)
  show ?thesis
  proof (cases "shouldRetry res")
    case False
    with assms DialFail show ?thesis by (auto simp: connectDial_def split: if_splits)
  next
    case True
    with assms DialFail obtain y where
      y: "retryConn X c D (now + int (took D 0)) [Dial now (proxyAddr c) (dialHeader c)] = Some y"
      and e: "(r, c', log) = (case y of (r, log) \<Rightarrow> (r, c, log))"
      by (auto simp: connectDial_def)
    from retryLoop_partial[OF y[unfolded retryConn_def]] e
    show ?thesis by (cases y) auto
  qed
qed

lemma connectWithRetry_partial:
  assumes "connectWithRetry X c cfgr D now = Some (r, c', log)"
  shows "state c' = state c \<and> session c' = session c \<and> url c' = url c \<and>
     closed c' = closed c \<and> acceptErr c' = acceptErr c \<and> list_all isDial log \<and>
     (\<forall>cn u. r = Inr (cn, u) \<longrightarrow>
        (\<exists>j res. outcome D j = DialOk cn res \<and>
           u = Header_Get (Header res) ''x-webhooktunnel-client-url''))"
proof (cases "IsTokenUsable X (token c)")
  case True
  with assms have "connectDial X c D now = Some (r, c', log)" by (simp add: connectWithRetry_def)
  from connectDial_partial[OF this] show ?thesis by simp
next
  case False
  show ?thesis
  proof (cases cfgr)
    case None
    with False assms show ?thesis by (auto simp add: connectWithRetry_def)
  next
    case (Some config)
    with False assms have "connectDial X (setConfig X c config) D now = Some (r, c', log)"
      by (simp add: connectWithRetry_def)
    from connectDial_partial[OF this] show ?thesis by (simp add: setConfig_def)
  qed
qed

subsection \<open>Helper facts on the goroutines\<close>

lemma reconnect_closed:
  assumes "reconnect X c cfgr D now = Some (c', effs)"
  shows "closed c' = closed c"
proof -
  from assms obtain r c1 log where k: "connectWithRetry X c cfgr D now = Some (r, c1, log)"
    by (cases "connectWithRetry X c cfgr D now") (auto simp: reconnect_def)
  from connectWithRetry_partial[OF k] have "closed c1 = closed c" by simp
  with assms k show ?thesis
    by (cases r) (auto simp: reconnect_def split: prod.splits)
qed

lemma acceptLocked_closed: "closed (fst (snd (acceptLocked c acc))) = closed c"
  by (simp add: acceptLocked_def split: option.splits)

lemma step_closed:
  assumes "closed (client s)"
  shows "closed (client (step X ev s))"
proof (cases ev)
  case CallClose
  with assms show ?thesis by (simp add: Close_def)
next
  case EnterAccept
  with assms show ?thesis by simp
next
  case (RunAccept acc)
  with assms acceptLocked_closed[of "client s" acc] show ?thesis
    by (auto split: prod.splits)
next
  case RunCleanup
  with assms show ?thesis by (simp add: closeCleanup_def)
next
  case (RunReconnect cfgr D now)
  with assms show ?thesis
    by (auto split: option.splits dest: reconnect_closed)
qed

lemma run_closed: "closed (client s) \<Longrightarrow> closed (client (run X evs s))"
  by (induction evs arbitrary: s) (simp_all add: step_closed)

lemma step_CallClose_closed: "closed (client (step X CallClose s))"
  by (simp add: Close_def)

lemma step_quiet:
  assumes "closed (client s)" "AcceptTask \<notin> set (inflight s)" "ReconnectTask \<notin> set (inflight s)"
  shows "closed (client (step X ev s)) \<and>
     AcceptTask \<notin> set (inflight (step X ev s)) \<and>
     ReconnectTask \<notin> set (inflight (step X ev s)) \<and>
     session (client (step X ev s)) = session (client s) \<and>
     url (client (step X ev s)) = url (client s) \<and>
     state (client (step X ev s)) = state (client s)"
proof (cases ev)
  case CallClose
  with assms show ?thesis by (simp add: Close_def)
next
  case EnterAccept
  with assms show ?thesis by simp
next
  case (RunAccept acc)
  with assms show ?thesis by simp
next
  case RunCleanup
  with assms show ?thesis
    by (auto simp: closeCleanup_def split: option.splits dest: notin_set_remove1)
next
  case (RunReconnect cfgr D now)
  with assms show ?thesis by simp
qed

lemma run_quiet:
  assumes "closed (client s)" "AcceptTask \<notin> set (inflight s)" "ReconnectTask \<notin> set (inflight s)"
  shows "closed (client (run X evs s)) \<and>
     AcceptTask \<notin> set (inflight (run X evs s)) \<and>
     ReconnectTask \<notin> set (inflight (run X evs s)) \<and>
     session (client (run X evs s)) = session (client s) \<and>
     url (client (run X evs s)) = url (client s) \<and>
     state (client (run X evs s)) = state (client s)"
  using assms
proof (induction evs arbitrary: s)
  case Nil
  then show ?case by simp
next
  case (Cons ev evs)
  from step_quiet[OF Cons.prems, of X ev] Cons.IH[of "step X ev s"]
  show ?case by simp
qed

lemma step_CallClose_again: "closed (client s) \<Longrightarrow> step X CallClose s = s"
  by (cases s) (simp add: Close_def)

lemma run_CallClose_closed:
  "closed (client t) \<Longrightarrow> run X (replicate m CallClose) t = t"
  by (induction m) (simp_all add: step_CallClose_again del: step.simps)

lemma run_replicate_CallClose:
  "run X (replicate (Suc n) CallClose) s = step X CallClose s"
  using run_CallClose_closed[OF step_CallClose_closed, of X n X s]
  by (simp del: step.simps)

lemma count_list_isDial: "list_all isDial es \<Longrightarrow> count_list es (CloseSession s) = 0"
  by (induction es) auto

subsection \<open>The concrete inputs are states of the program\<close>

lemma client0_from_New:
  "New X0 (Some cfg0) None (dialer (\<lambda>k. DialOk 1 (respUrl 101 ''http://a''))) 0 =
     Some (Inr client0,
           [Dial 0 ''ws://relay''
              [(''Authorization'', ''Bearer tok''), (''x-webhooktunnel-id'', ''w1'')]])"
  by (simp add: New_def connectWithRetry_def connectDial_def setConfig_def zeroClient_def
      X0_def cfg0_def dialer_def respUrl_def client0_def Header_Get_def dialHeader_def)

lemma broken0_from_Accept:
  "Accept client0 (\<lambda>s. None) =
     (AcceptErr (Some ErrClientReconnecting), broken0, [Go ReconnectTask])"
  by (simp add: Accept_def acceptLocked_def client0_def broken0_def)

text \<open>The definitions unfolded to evaluate the connector at a concrete input.\<close>

lemmas eval_defs = connectWithRetry_def connectDial_def retryConn_def retryLoop.simps
  setConfig_def X0_def client0_def cfg0_def dialer_def resp_def respUrl_def Header_Get_def
  dialHeader_def

text \<open>The definitions unfolded to evaluate the client's operations.\<close>

lemmas client_defs = Accept_def acceptLocked_def Close_def closeCleanup_def reconnect_def
  system0_def

subsection \<open>C1: the dial classifier\<close>

text \<open>
  C1, as stated, fails: a response with status 301 lies in 200--399, is not 401 and
  is below 500, and \<open>shouldRetry\<close> is true for it.
\<close>

theorem shouldRetry_301_counterexample:
  "200 \<le> StatusCode (resp 301) \<and> StatusCode (resp 301) \<le> 399 \<and>
   StatusCode (resp 301) \<noteq> 401 \<and> \<not> 500 \<le> StatusCode (resp 301) \<and>
   shouldRetry (Some (resp 301))"
  by (simp add: resp_def)

text \<open>
  C1 (amended): the classifier is a total function of the handshake response.
  \<open>shouldRetry\<close> holds exactly when there is no response or the status is neither
  in 200--299 nor in 400--499; so every status from 500 on is retried, every status
  in 200--299 is not, and the statuses 300--399 are retried. \<open>isAuthError\<close> holds
  exactly for a response with status 401, and such a response is never retried.
\<close>

theorem classifier_total:
  "(shouldRetry res \<longleftrightarrow>
      res = None \<or>
      (\<exists>r. res = Some r \<and>
         \<not> (200 \<le> StatusCode r \<and> StatusCode r \<le> 299) \<and>
         \<not> (400 \<le> StatusCode r \<and> StatusCode r \<le> 499))) \<and>
   (isAuthError res \<longleftrightarrow> (\<exists>r. res = Some r \<and> StatusCode r = 401)) \<and>
   \<not> (shouldRetry res \<and> isAuthError res)"
proof (cases res)
  case None
  then show ?thesis by simp
next
  case (Some r)
  then show ?thesis by (auto simp add: shouldRetry_Some simp del: shouldRetry.simps)
qed

theorem classifier_total_witness:
  "shouldRetry None \<and> shouldRetry (Some (resp 503)) \<and> shouldRetry (Some (resp 302)) \<and>
   \<not> shouldRetry (Some (resp 204)) \<and> \<not> shouldRetry (Some (resp 401)) \<and>
   isAuthError (Some (resp 401)) \<and> \<not> isAuthError (Some (resp 403))"
  using classifier_total [of None] classifier_total [of "Some (resp 503)"]
    classifier_total [of "Some (resp 302)"] classifier_total [of "Some (resp 204)"]
    classifier_total [of "Some (resp 401)"] classifier_total [of "Some (resp 403)"]
  by (simp add: resp_def)

subsection \<open>C2: a dial rejected with status 401\<close>

text \<open>
  C2: on the immediate attempt a failed dial with status 401 makes the connector
  return \<open>ErrAuthFailed\<close> after a single dial. Inside the retry loop it does not:
  when the first dial gets no response and the second one is rejected with 401, the
  connector returns \<open>ErrRetryFailed\<close>, since \<open>retryConn\<close> never asks \<open>isAuthError\<close>.
\<close>

theorem retry_loop_401_yields_RetryFailed:
  "connectWithRetry X0 client0 None (dialer (\<lambda>k. DialFail (Some (resp 401)))) 0 =
     Some (Inl ErrAuthFailed, client0,
       [Dial 0 ''ws://relay'' [(''Authorization'', ''Bearer tok''), (''x-webhooktunnel-id'', ''w1'')]]) \<and>
   connectWithRetry X0 client0 None
       (dialer (\<lambda>k. if k = 0 then DialFail None else DialFail (Some (resp 401)))) 0 =
     Some (Inl ErrRetryFailed, client0,
       [Dial 0 ''ws://relay'' [(''Authorization'', ''Bearer tok''), (''x-webhooktunnel-id'', ''w1'')],
        Dial 11 ''ws://relay'' [(''Authorization'', ''Bearer tok''), (''x-webhooktunnel-id'', ''w1'')]])"
  by (simp add: eval_defs)

subsection \<open>C3: the client after \<open>Close\<close>\<close>

text \<open>
  C3, as stated, fails. A failing \<open>Accept\<close> leaves the client broken with a
  \<open>reconnect\<close> in flight; \<open>Close\<close> is then called and its cleanup runs; the
  \<open>reconnect\<close> runs afterwards, succeeds, installs a new session and a new public
  URL and sets the state to \<open>stateRunning\<close>, although the channel \<open>closed\<close> is
  closed.
\<close>

theorem closed_client_resurrected_counterexample:
  "closed (client (run X0 [EnterAccept, RunAccept (\<lambda>s. None), CallClose] system0)) \<and>
   state (client (run X0 [EnterAccept, RunAccept (\<lambda>s. None), CallClose] system0)) = stateBroken \<and>
   client (run X0 [RunCleanup, RunReconnect None (dialer (\<lambda>k. DialOk 5 (respUrl 101 ''http://b''))) 100]
             (run X0 [EnterAccept, RunAccept (\<lambda>s. None), CallClose] system0)) =
     client0\<lparr>session := Some (Session 5 4096), url := Some ''http://b'', state := stateRunning,
             closed := True, acceptErr := None\<rparr>"
  by (simp add: eval_defs client_defs)

text \<open>
  C3 (amended): after a call of \<open>Close\<close> the channel \<open>closed\<close> stays closed whatever
  happens next. If no call of \<open>Accept\<close> and no \<open>reconnect\<close> was in flight when
  \<open>Close\<close> was called, none comes into flight later, and no later step installs a
  session, stores a public URL or changes the state field.
\<close>

theorem closed_client_quiescent:
  "closed (client (run X evs (step X CallClose s))) \<and>
   (AcceptTask \<notin> set (inflight s) \<and> ReconnectTask \<notin> set (inflight s) \<longrightarrow>
      session (client (run X evs (step X CallClose s))) = session (client s) \<and>
      url (client (run X evs (step X CallClose s))) = url (client s) \<and>
      state (client (run X evs (step X CallClose s))) = state (client s) \<and>
      AcceptTask \<notin> set (inflight (run X evs (step X CallClose s))) \<and>
      ReconnectTask \<notin> set (inflight (run X evs (step X CallClose s))))"
proof -
  let ?s = "step X CallClose s"
  have c: "closed (client ?s)" by (rule step_CallClose_closed)
  have k: "session (client ?s) = session (client s)" "url (client ?s) = url (client s)"
    "state (client ?s) = state (client s)"
    by (simp_all add: Close_def)
  have q: "AcceptTask \<notin> set (inflight ?s) \<and> ReconnectTask \<notin> set (inflight ?s)"
    if "AcceptTask \<notin> set (inflight s)" "ReconnectTask \<notin> set (inflight s)"
    using that by (simp add: Close_def)
  show ?thesis
  proof (intro conjI impI)
    show "closed (client (run X evs ?s))" by (rule run_closed[OF c])
  next
    assume h: "AcceptTask \<notin> set (inflight s) \<and> ReconnectTask \<notin> set (inflight s)"
    with q have a: "AcceptTask \<notin> set (inflight ?s)" and r: "ReconnectTask \<notin> set (inflight ?s)"
      by simp_all
    note Q = run_quiet[OF c a r, of X evs]
    show "session (client (run X evs ?s)) = session (client s)" using Q k by simp
    show "url (client (run X evs ?s)) = url (client s)" using Q k by simp
    show "state (client (run X evs ?s)) = state (client s)" using Q k by simp
    show "AcceptTask \<notin> set (inflight (run X evs ?s))" using Q by simp
    show "ReconnectTask \<notin> set (inflight (run X evs ?s))" using Q by simp
  qed
qed

theorem closed_client_quiescent_witness:
  "AcceptTask \<notin> set (inflight system0) \<and> ReconnectTask \<notin> set (inflight system0) \<and>
   session (client (run X0
      [RunCleanup, EnterAccept, RunAccept (\<lambda>s. None),
       RunReconnect None (dialer (\<lambda>k. DialOk 5 (respUrl 101 ''http://b''))) 100]
      (step X0 CallClose system0))) = Some (Session 1 0) \<and>
   url (client (run X0
      [RunCleanup, EnterAccept, RunAccept (\<lambda>s. None),
       RunReconnect None (dialer (\<lambda>k. DialOk 5 (respUrl 101 ''http://b''))) 100]
      (step X0 CallClose system0))) = Some ''http://a'' \<and>
   state (client (run X0
      [RunCleanup, EnterAccept, RunAccept (\<lambda>s. None),
       RunReconnect None (dialer (\<lambda>k. DialOk 5 (respUrl 101 ''http://b''))) 100]
      (step X0 CallClose system0))) = stateRunning"
proof -
  have h: "AcceptTask \<notin> set (inflight system0) \<and> ReconnectTask \<notin> set (inflight system0)"
    by (simp add: system0_def)
  have v: "session (client system0) = Some (Session 1 0)" "url (client system0) = Some ''http://a''"
    "state (client system0) = stateRunning"
    by (simp_all add: system0_def client0_def)
  from closed_client_quiescent[of X0
      "[RunCleanup, EnterAccept, RunAccept (\<lambda>s. None),
       RunReconnect None (dialer (\<lambda>k. DialOk 5 (respUrl 101 ''http://b''))) 100]" system0] h v
  show ?thesis by (simp del: step.simps run.simps)
qed

subsection \<open>C4: what \<open>Accept\<close> returns\<close>




subsection \<open>C5: a successful repair\<close>

text \<open>
  C5: when the connector succeeds, \<open>reconnect\<close> returns; it has called \<open>Close\<close> of
  the previous session exactly once (and of no session when there was none), the
  new session and the new public URL are installed, the stored error is cleared and
  the state is \<open>stateRunning\<close>; unless the client has been shut down, the next
  \<open>Accept\<close> gives what the new session's accept gives.
\<close>

theorem reconnect_success:
  assumes "connectWithRetry X c cfgr D now = Some (Inr (cn, u), c', log)"
  shows "\<exists>c'' log'. reconnect X c cfgr D now = Some (c'', log') \<and>
      session c'' = Some (Session cn 4096) \<and> url c'' = Some u \<and> URL c'' = Some u \<and>
      acceptErr c'' = None \<and> state c'' = stateRunning \<and> closed c'' = closed c \<and>
      (\<forall>old. session c = Some old \<longrightarrow> count_list log' (CloseSession old) = 1) \<and>
      (session c = None \<longrightarrow> list_all isDial log') \<and>
      (\<not> closed c \<longrightarrow>
         Accept c'' acc =
           (case acc (Session cn 4096) of
              None \<Rightarrow>
                (AcceptErr (Some ErrClientReconnecting),
                 c''\<lparr>state := stateBroken, acceptErr := Some ErrClientReconnecting\<rparr>,
                 [Go ReconnectTask])
            | Some st \<Rightarrow> (AcceptStream st, c'', [])))"
proof -
  from connectWithRetry_partial[OF assms] have
    p: "session c' = session c" "closed c' = closed c" "list_all isDial log" by simp_all
  let ?c = "c'\<lparr>session := Some (Session cn 4096), url := Some u,
                   state := stateRunning, acceptErr := None\<rparr>"
  let ?log = "log @ (case session c' of None \<Rightarrow> [] | Some s \<Rightarrow> [CloseSession s])"
  have r: "reconnect X c cfgr D now = Some (?c, ?log)"
    using assms by (simp add: reconnect_def)
  have 1: "\<forall>old. session c = Some old \<longrightarrow> count_list ?log (CloseSession old) = 1"
    using p count_list_isDial[OF p(3)] by simp
  have 2: "session c = None \<longrightarrow> list_all isDial ?log"
    using p by simp
  have 3: "\<not> closed c \<longrightarrow>
         Accept ?c acc =
           (case acc (Session cn 4096) of
              None \<Rightarrow>
                (AcceptErr (Some ErrClientReconnecting),
                 ?c\<lparr>state := stateBroken, acceptErr := Some ErrClientReconnecting\<rparr>,
                 [Go ReconnectTask])
            | Some st \<Rightarrow> (AcceptStream st, ?c, []))"
    using p by (simp add: Accept_def acceptLocked_def)
  show ?thesis
    using r 1 2 3 p(2) by (intro exI[of _ ?c] exI[of _ ?log]) (simp add: URL_def)
qed

theorem reconnect_success_witness:
  "reconnect X0 broken0 None
     (dialer (\<lambda>k. if k = 0 then DialFail (Some (resp 503)) else DialOk 3 (respUrl 101 ''http://b''))) 0 =
   Some (broken0\<lparr>session := Some (Session 3 4096), url := Some ''http://b'',
                 state := stateRunning, acceptErr := None\<rparr>,
         [Dial 0 ''ws://relay'' [(''Authorization'', ''Bearer tok''), (''x-webhooktunnel-id'', ''w1'')],
          Dial 11 ''ws://relay'' [(''Authorization'', ''Bearer tok''), (''x-webhooktunnel-id'', ''w1'')],
          CloseSession (Session 1 0)]) \<and>
   (\<exists>c'' log'. reconnect X0 broken0 None
        (dialer (\<lambda>k. if k = 0 then DialFail (Some (resp 503)) else DialOk 3 (respUrl 101 ''http://b''))) 0 =
        Some (c'', log') \<and> state c'' = stateRunning \<and> acceptErr c'' = None \<and>
        count_list log' (CloseSession (Session 1 0)) = 1 \<and>
        Accept c'' (\<lambda>s. if s = Session 3 4096 then Some 8 else None) = (AcceptStream 8, c'', []))"
proof -
  let ?D = "dialer (\<lambda>k. if k = 0 then DialFail (Some (resp 503)) else DialOk 3 (respUrl 101 ''http://b''))"
  let ?h = "[(''Authorization'', ''Bearer tok''), (''x-webhooktunnel-id'', ''w1'')]"
  have e: "connectWithRetry X0 broken0 None ?D 0 =
      Some (Inr (3, ''http://b''), broken0, [Dial 0 ''ws://relay'' ?h, Dial 11 ''ws://relay'' ?h])"
    by (simp add: eval_defs broken0_def)
  have s: "session broken0 = Some (Session 1 0)" "\<not> closed broken0"
    by (simp_all add: broken0_def client0_def)
  from reconnect_success[OF e, of "\<lambda>s. if s = Session 3 4096 then Some 8 else None"] s
  have 1: "\<exists>c'' log'. reconnect X0 broken0 None ?D 0 =
        Some (c'', log') \<and> state c'' = stateRunning \<and> acceptErr c'' = None \<and>
        count_list log' (CloseSession (Session 1 0)) = 1 \<and>
        Accept c'' (\<lambda>s. if s = Session 3 4096 then Some 8 else None) = (AcceptStream 8, c'', [])"
    by auto
  have 2: "reconnect X0 broken0 None ?D 0 =
   Some (broken0\<lparr>session := Some (Session 3 4096), url := Some ''http://b'',
                 state := stateRunning, acceptErr := None\<rparr>,
         [Dial 0 ''ws://relay'' ?h, Dial 11 ''ws://relay'' ?h, CloseSession (Session 1 0)])"
    using e s by (simp add: reconnect_def)
  from 1 2 show ?thesis by blast
qed

subsection \<open>C6: a failed repair\<close>

text \<open>
  C6, as stated, fails: when the connector fails with \<open>ErrAuthFailed\<close>, and when it
  fails with \<open>ErrRetryTimedOut\<close>, the error that \<open>reconnect\<close> stores is
  \<open>ErrRetryFailed\<close>.
\<close>

theorem reconnect_error_collapsed_counterexample:
  "map_option fst (connectWithRetry X0 broken0 None (dialer (\<lambda>k. DialFail (Some (resp 401)))) 0) =
     Some (Inl ErrAuthFailed) \<and>
   map_option (\<lambda>r. acceptErr (fst r))
     (reconnect X0 broken0 None (dialer (\<lambda>k. DialFail (Some (resp 401)))) 0) =
     Some (Some ErrRetryFailed) \<and>
   map_option fst (connectWithRetry X0 broken0 None (dialer (\<lambda>k. DialFail None)) 0) =
     Some (Inl ErrRetryTimedOut) \<and>
   map_option (\<lambda>r. acceptErr (fst r))
     (reconnect X0 broken0 None (dialer (\<lambda>k. DialFail None)) 0) =
     Some (Some ErrRetryFailed)"
  by (simp add: eval_defs broken0_def reconnect_def)

text \<open>
  C6 (amended): when the connector fails, with whatever error, \<open>reconnect\<close> stores
  \<open>ErrRetryFailed\<close> and leaves state, session and public URL as they were; a broken
  client that has not been shut down stays broken, and the next \<open>Accept\<close> returns
  \<open>ErrRetryFailed\<close>.
\<close>

theorem reconnect_failure:
  assumes "connectWithRetry X c cfgr D now = Some (Inl e, c', log)"
  shows "reconnect X c cfgr D now = Some (c'\<lparr>acceptErr := Some ErrRetryFailed\<rparr>, log) \<and>
     state (c'\<lparr>acceptErr := Some ErrRetryFailed\<rparr>) = state c \<and>
     session (c'\<lparr>acceptErr := Some ErrRetryFailed\<rparr>) = session c \<and>
     url (c'\<lparr>acceptErr := Some ErrRetryFailed\<rparr>) = url c \<and>
     (\<not> closed c \<and> state c = stateBroken \<longrightarrow>
        Accept (c'\<lparr>acceptErr := Some ErrRetryFailed\<rparr>) acc =
          (AcceptErr (Some ErrRetryFailed), c'\<lparr>acceptErr := Some ErrRetryFailed\<rparr>, []))"
proof -
  from connectWithRetry_partial[OF assms] have
    p: "state c' = state c" "session c' = session c" "url c' = url c" "closed c' = closed c"
    by simp_all
  from assms have "reconnect X c cfgr D now = Some (c'\<lparr>acceptErr := Some ErrRetryFailed\<rparr>, log)"
    by (simp add: reconnect_def)
  with p show ?thesis by (simp add: Accept_def acceptLocked_def)
qed

theorem reconnect_failure_witness:
  "reconnect X0 broken0 None (dialer (\<lambda>k. DialFail (Some (resp 401)))) 0 =
     Some (broken0\<lparr>acceptErr := Some ErrRetryFailed\<rparr>,
       [Dial 0 ''ws://relay'' [(''Authorization'', ''Bearer tok''), (''x-webhooktunnel-id'', ''w1'')]]) \<and>
   state (broken0\<lparr>acceptErr := Some ErrRetryFailed\<rparr>) = stateBroken \<and>
   Accept (broken0\<lparr>acceptErr := Some ErrRetryFailed\<rparr>) (\<lambda>s. Some 4) =
     (AcceptErr (Some ErrRetryFailed), broken0\<lparr>acceptErr := Some ErrRetryFailed\<rparr>, [])"
proof -
  have e: "connectWithRetry X0 broken0 None (dialer (\<lambda>k. DialFail (Some (resp 401)))) 0 =
      Some (Inl ErrAuthFailed, broken0,
        [Dial 0 ''ws://relay'' [(''Authorization'', ''Bearer tok''), (''x-webhooktunnel-id'', ''w1'')]])"
    by (simp add: eval_defs broken0_def)
  have s: "state broken0 = stateBroken" "\<not> closed broken0"
    by (simp_all add: broken0_def client0_def)
  from reconnect_failure[OF e, of "\<lambda>s. Some 4"] s show ?thesis by simp
qed

subsection \<open>C7: \<open>Close\<close> is idempotent\<close>

text \<open>
  C7: every call of \<open>Close\<close> returns the error \<open>nil\<close> and leaves the channel
  \<open>closed\<close> closed; only a call on an open channel starts the cleanup goroutine, and
  a further call changes nothing. Any number of calls in a row leaves the system as
  one call does, and whatever happens after a call of \<open>Close\<close>, \<open>Accept\<close> returns
  \<open>ErrClientClosed\<close> and changes nothing.
\<close>

theorem close_idempotent:
  "fst (Close c) = None \<and>
   closed (fst (snd (Close c))) \<and>
   snd (snd (Close c)) = (if closed c then [] else [Go CleanupTask]) \<and>
   Close (fst (snd (Close c))) = (None, fst (snd (Close c)), []) \<and>
   run X (replicate (Suc n) CallClose) s = step X CallClose s \<and>
   closed (client (run X (CallClose # evs) s)) \<and>
   Accept (client (run X (CallClose # evs) s)) acc =
     (AcceptErr (Some ErrClientClosed), client (run X (CallClose # evs) s), [])"
proof -
  have c: "closed (client (run X (CallClose # evs) s))"
    using run_closed[OF step_CallClose_closed, where evs = evs] by (simp del: step.simps)
  then have "Accept (client (run X (CallClose # evs) s)) acc =
     (AcceptErr (Some ErrClientClosed), client (run X (CallClose # evs) s), [])"
    by (simp add: Accept_def)
  with c run_replicate_CallClose[of X n s] show ?thesis
    by (simp add: Close_def)
qed

theorem close_idempotent_witness:
  "run X0 (replicate 3 CallClose) system0 =
     \<lparr>client = client0\<lparr>closed := True\<rparr>, inflight = [CleanupTask]\<rparr> \<and>
   fst (Accept (client (run X0 [CallClose, RunCleanup, CallClose] system0)) (\<lambda>s. Some 9)) =
     AcceptErr (Some ErrClientClosed)"
proof -
  have "step X0 CallClose system0 = \<lparr>client = client0\<lparr>closed := True\<rparr>, inflight = [CleanupTask]\<rparr>"
    by (simp add: system0_def client0_def Close_def)
  with close_idempotent[of client0 X0 2 system0 "[RunCleanup, CallClose]" "\<lambda>s. Some 9"]
  show ?thesis by (simp add: numeral_3_eq_3)
qed

subsection \<open>C8: the retry loop is bounded by its budget\<close>





subsection \<open>C9: a failing credential refresh\<close>

text \<open>
  C9, as stated, fails: the error of a failed credential refresh is
  \<open>ErrRetryFailed\<close>, the very error of a dial that failed with a non-retryable
  status (404 here), so the two cannot be told apart.
\<close>

theorem config_refresh_error_counterexample:
  "\<not> IsTokenUsable X0 (token (client0\<lparr>token := []\<rparr>)) \<and>
   map_option fst (connectWithRetry X0 (client0\<lparr>token := []\<rparr>) None
       (dialer (\<lambda>k. DialOk 2 (resp 101))) 0) = Some (Inl ErrRetryFailed) \<and>
   map_option fst (connectWithRetry X0 client0 None
       (dialer (\<lambda>k. DialFail (Some (resp 404)))) 0) = Some (Inl ErrRetryFailed)"
  by (simp add: eval_defs)

text \<open>
  C9 (amended): when the credential is not usable and the configurer fails, the
  connector returns \<open>ErrRetryFailed\<close> at once: no dial and no other effect takes
  place, the retry loop is not entered and the client is unchanged. That error
  differs from \<open>ErrAuthFailed\<close> and from \<open>ErrRetryTimedOut\<close>.
\<close>

theorem config_refresh_failure:
  assumes "\<not> IsTokenUsable X (token c)"
  shows "connectWithRetry X c None D now = Some (Inl ErrRetryFailed, c, []) \<and>
     ErrRetryFailed \<noteq> ErrAuthFailed \<and> ErrRetryFailed \<noteq> ErrRetryTimedOut"
  using assms by (simp add: connectWithRetry_def)

theorem config_refresh_failure_witness:
  "\<not> IsTokenUsable X0 (token (client0\<lparr>token := []\<rparr>)) \<and>
   connectWithRetry X0 (client0\<lparr>token := []\<rparr>) None (dialer (\<lambda>k. DialOk 2 (resp 101))) 0 =
     Some (Inl ErrRetryFailed, client0\<lparr>token := []\<rparr>, [])"
proof -
  have h: "\<not> IsTokenUsable X0 (token (client0\<lparr>token := []\<rparr>))" by (simp add: X0_def)
  from config_refresh_failure[OF h] h show ?thesis by simp
qed

subsection \<open>C10: a handshake response without the public-URL header\<close>

text \<open>
  C10: let no successful handshake response carry the header
  \<open>x-webhooktunnel-client-url\<close>. Then a connector that succeeds, on the immediate
  attempt or in the retry loop, reports the empty string as the public URL;
  \<open>reconnect\<close> then succeeds too, and \<open>URL\<close> of the client it leaves, as of a client
  built by \<open>New\<close>, returns the empty string and not an error. Such a success exists:
  with a usable or refreshed credential and a successful immediate dial the
  connector succeeds.
\<close>

theorem missing_url_header_gives_empty_url:
  assumes "\<forall>k cn res. outcome D k = DialOk cn res \<longrightarrow>
             Header res ''x-webhooktunnel-client-url'' = None"
  shows "(\<forall>cn u c' log. connectWithRetry X c cfgr D now = Some (Inr (cn, u), c', log) \<longrightarrow>
            u = [] \<and>
            (\<exists>c'' log'. reconnect X c cfgr D now = Some (c'', log') \<and> URL c'' = Some [])) \<and>
     (\<forall>cl log. New X config0 cfgr D now = Some (Inr cl, log) \<longrightarrow> URL cl = Some []) \<and>
     ((IsTokenUsable X (token c) \<or> cfgr \<noteq> None) \<and> (\<exists>cn res. outcome D 0 = DialOk cn res) \<longrightarrow>
        (\<exists>cn c' log. connectWithRetry X c cfgr D now = Some (Inr (cn, []), c', log)))"
proof -
  have empty: "u = []"
    if "connectWithRetry X c1 cfgr D now = Some (Inr (cn, u), c', log)" for c1 cn u c' log
  proof -
    from connectWithRetry_partial[OF that] obtain j res where
      "outcome D j = DialOk cn res" "u = Header_Get (Header res) ''x-webhooktunnel-client-url''"
      by blast
    with assms show ?thesis by (simp add: Header_Get_def)
  qed
  have A: "\<forall>cn u c' log. connectWithRetry X c cfgr D now = Some (Inr (cn, u), c', log) \<longrightarrow>
            u = [] \<and>
            (\<exists>c'' log'. reconnect X c cfgr D now = Some (c'', log') \<and> URL c'' = Some [])"
  proof (intro allI impI)
    fix cn u c' log
    assume h: "connectWithRetry X c cfgr D now = Some (Inr (cn, u), c', log)"
    from empty[OF h] h show "u = [] \<and>
            (\<exists>c'' log'. reconnect X c cfgr D now = Some (c'', log') \<and> URL c'' = Some [])"
      by (simp add: reconnect_def URL_def)
  qed
  have B: "\<forall>cl log. New X config0 cfgr D now = Some (Inr cl, log) \<longrightarrow> URL cl = Some []"
  proof (intro allI impI)
    fix cl log
    assume h: "New X config0 cfgr D now = Some (Inr cl, log)"
    then obtain config where c0: "config0 = Some config"
      by (cases config0) (simp_all add: New_def)
    from h c0 obtain cn u c' where
      k: "connectWithRetry X (setConfig X zeroClient config) cfgr D now = Some (Inr (cn, u), c', log)"
      and cl: "cl = c'\<lparr>url := Some u, session := Some (Session cn 0)\<rparr>"
      by (auto simp: New_def split: option.splits sum.splits)
    from empty[OF k] cl show "URL cl = Some []" by (simp add: URL_def)
  qed
  have C: "(IsTokenUsable X (token c) \<or> cfgr \<noteq> None) \<and> (\<exists>cn res. outcome D 0 = DialOk cn res) \<longrightarrow>
        (\<exists>cn c' log. connectWithRetry X c cfgr D now = Some (Inr (cn, []), c', log))"
  proof
    assume h: "(IsTokenUsable X (token c) \<or> cfgr \<noteq> None) \<and> (\<exists>cn res. outcome D 0 = DialOk cn res)"
    then obtain cn res where o: "outcome D 0 = DialOk cn res" by blast
    with assms have e: "Header_Get (Header res) ''x-webhooktunnel-client-url'' = []"
      by (simp add: Header_Get_def)
    from h o e show "\<exists>cn c' log. connectWithRetry X c cfgr D now = Some (Inr (cn, []), c', log)"
      by (cases cfgr) (auto simp: connectWithRetry_def connectDial_def)
  qed
  from A B C show ?thesis by blast
qed


theorem missing_url_header_gives_empty_url_witness:
  "connectWithRetry X0 client0 None (dialer (\<lambda>k. DialOk 2 (resp 101))) 0 =
     Some (Inr (2, []), client0,
       [Dial 0 ''ws://relay'' [(''Authorization'', ''Bearer tok''), (''x-webhooktunnel-id'', ''w1'')]]) \<and>
   (\<exists>c'' log'. reconnect X0 (client0\<lparr>state := stateBroken\<rparr>) None
        (dialer (\<lambda>k. if k = 0 then DialFail (Some (resp 503)) else DialOk 3 (resp 101))) 0 =
        Some (c'', log') \<and> URL c'' = Some [])"
proof -
  let ?D1 = "dialer (\<lambda>k. DialOk 2 (resp 101))"
  let ?D2 = "dialer (\<lambda>k. if k = 0 then DialFail (Some (resp 503)) else DialOk 3 (resp 101))"
  let ?h = "[(''Authorization'', ''Bearer tok''), (''x-webhooktunnel-id'', ''w1'')]"
  have h2: "\<forall>k cn res. outcome ?D2 k = DialOk cn res \<longrightarrow>
             Header res ''x-webhooktunnel-client-url'' = None"
    by (simp add: dialer_def resp_def)
  have e1: "connectWithRetry X0 client0 None ?D1 0 =
      Some (Inr (2, []), client0, [Dial 0 ''ws://relay'' ?h])"
    by (simp add: eval_defs)
  have e2: "connectWithRetry X0 (client0\<lparr>state := stateBroken\<rparr>) None ?D2 0 =
      Some (Inr (3, []), client0\<lparr>state := stateBroken\<rparr>,
        [Dial 0 ''ws://relay'' ?h, Dial 11 ''ws://relay'' ?h])"
    by (simp add: eval_defs)
  from missing_url_header_gives_empty_url[OF h2, of X0 "client0\<lparr>state := stateBroken\<rparr>" None 0 None] e2
  have "\<exists>c'' log'. reconnect X0 (client0\<lparr>state := stateBroken\<rparr>) None ?D2 0 =
        Some (c'', log') \<and> URL c'' = Some []"
    by blast
  with e1 show ?thesis by blast
qed

end
